theory Spec2Isabelle
  imports Complex_Main
begin

section \<open>Values and errors\<close>

text \<open>
  The module \<^verbatim>\<open>oandapysuite/implementation.py\<close> is embedded function by function.
  An exception is a value \<open>Inl e\<close> of a sum type; a normal return is \<open>Inr v\<close>.
  \<open>ClusterConcatException\<close> is the only exception the module raises itself (it carries
  the two instrument strings it is constructed with); the others are raised by Python
  itself on an attribute lookup, an index or a \<open>Decimal\<close> comparison, or by a library
  function (\<open>LibraryError\<close>, with a tag chosen by the library).
\<close>

datatype error =
    ClusterConcatException string string
  | AttributeError string
  | TypeError
  | IndexError
  | InvalidOperation
  | LibraryError string

definition and_then :: "error + 'a \<Rightarrow> ('a \<Rightarrow> error + 'b) \<Rightarrow> error + 'b" where
  "and_then r f = (case r of Inl e \<Rightarrow> Inl e | Inr v \<Rightarrow> f v)"

text \<open>
  A \<open>decimal.Decimal\<close> is represented by its numerical value: a finite decimal is a
  rational number, and construction from a string is exact. The special values are kept,
  since the constructor accepts them. Signed zeros and the exponent of the representation
  are not distinguished; no function of the module below depends on them.
\<close>

datatype decimal = Finite rat | PosInf | NegInf | NaN

text \<open>
  \<open>a > b\<close> on two \<open>Decimal\<close>s. An ordering comparison with a NaN operand signals
  \<open>InvalidOperation\<close>, which the default context traps.
\<close>

fun dec_gt :: "decimal \<Rightarrow> decimal \<Rightarrow> error + bool" where
  "dec_gt NaN _ = Inl InvalidOperation"
| "dec_gt _ NaN = Inl InvalidOperation"
| "dec_gt (Finite a) (Finite b) = Inr (b < a)"
| "dec_gt (Finite a) PosInf = Inr False"
| "dec_gt (Finite a) NegInf = Inr True"
| "dec_gt PosInf PosInf = Inr False"
| "dec_gt PosInf _ = Inr True"
| "dec_gt NegInf _ = Inr False"

text \<open>A scalar of the decoded JSON document, as \<open>json.loads\<close> returns it.\<close>

datatype jval = JStr string | JInt int | JBool bool | JNull

text \<open>
  Python's slices \<open>xs[:k]\<close> and \<open>xs[k:]\<close>: a negative bound counts from the end,
  and a bound outside the sequence is clipped to it.
\<close>

definition clip_index :: "int \<Rightarrow> 'a list \<Rightarrow> nat" where
  "clip_index k xs =
     (let n = int (length xs) in nat (if k < 0 then max (n + k) 0 else min k n))"

definition slice_to :: "int \<Rightarrow> 'a list \<Rightarrow> 'a list" where
  "slice_to k xs = take (clip_index k xs) xs"

definition slice_from :: "int \<Rightarrow> 'a list \<Rightarrow> 'a list" where
  "slice_from k xs = drop (clip_index k xs) xs"

text \<open>
  The subscript \<open>xs[i]\<close> of a Python list. An index from \<open>-len(xs)\<close> to \<open>-1\<close>
  addresses the list from its end; any index outside \<open>-len(xs) .. len(xs) - 1\<close> raises
  \<open>IndexError\<close>.
\<close>

definition getitem_list :: "'a list \<Rightarrow> int \<Rightarrow> error + 'a" where
  "getitem_list xs i =
     (if 0 \<le> i \<and> i < int (length xs) then Inr (xs ! nat i)
      else if i < 0 \<and> - int (length xs) \<le> i then Inr (xs ! nat (int (length xs) + i))
      else Inl IndexError)"

text \<open>\<open>s.replace(a, b)\<close> for one-character \<open>a\<close> and \<open>b\<close>.\<close>

definition replace_char :: "char \<Rightarrow> char \<Rightarrow> string \<Rightarrow> string" where
  "replace_char a b s = map (\<lambda>ch. if ch = a then b else ch) s"

section \<open>The library functions the module calls\<close>

text \<open>
  The module calls functions that are defined outside it. They are parameters of the
  embedding, collected in one record; every theorem below holds for all of them.
  \<^item> \<open>D\<close>: \<open>decimal.Decimal\<close> applied to a string;
  \<^item> \<open>dsub\<close>: \<open>Decimal.__sub__\<close> under the module's context (\<open>prec = 6\<close>);
  \<^item> \<open>strptime\<close>: \<open>datetime.strptime\<close> with the module's \<open>time_format\<close>; a
    naive \<open>datetime\<close> is represented by an integer, with the order of the integers;
  \<^item> \<open>py_int\<close>: the builtin \<open>int\<close>;
  \<^item> \<open>standard_deviation\<close>: imported from \<open>oandapysuite.stats\<close>, whose text is not
    part of the module; the type \<open>'s\<close> of its result is left open.
\<close>

record 's library =
  D :: "string \<Rightarrow> error + decimal"
  dsub :: "decimal \<Rightarrow> decimal \<Rightarrow> error + decimal"
  strptime :: "string \<Rightarrow> error + int"
  py_int :: "jval \<Rightarrow> error + int"
  standard_deviation :: "decimal list \<Rightarrow> error + 's"

section \<open>The data model\<close>

text \<open>
  The decoded payload, of the shape the constructor reads: the keys \<open>granularity\<close>,
  \<open>instrument\<close> and \<open>candles\<close>, and per candle \<open>mid\<close> (with \<open>o\<close>, \<open>c\<close>,
  \<open>l\<close>, \<open>h\<close>), \<open>complete\<close>, \<open>time\<close> and \<open>volume\<close>.
\<close>

record raw_candle =
  mid_o :: string
  mid_c :: string
  mid_l :: string
  mid_h :: string
  json_complete :: jval
  json_time :: string
  json_volume :: jval

record payload =
  json_granularity :: string
  json_instrument :: string
  json_candles :: "raw_candle list"

text \<open>
  \<open>class Candle\<close>. The fields \<open>open\<close>, \<open>complete\<close>, \<open>gran\<close> and \<open>instrument\<close>
  carry a prime, since these names are taken (by constants of the library and by the
  fields of the cluster). \<open>None\<close> is Python's \<open>None\<close>.
\<close>

record candle =
  open' :: decimal
  close :: decimal
  low :: decimal
  high :: decimal
  oc_displacement :: decimal
  total_displacement :: decimal
  complete' :: bool
  time :: int
  volume :: int
  gran' :: string
  instrument' :: string
  reversal :: "bool option"
  is_bull :: "bool option"
  is_bear :: "bool option"

text \<open>\<open>class CandleCluster\<close>.\<close>

record 's cluster =
  candledata :: payload
  candles :: "candle list"
  ind :: int
  gran :: string
  instrument :: string
  std :: 's

section \<open>Construction\<close>

text \<open>\<open>Candle.__init__\<close>, in the order in which the source evaluates its right-hand sides.\<close>

definition Candle :: "'s library \<Rightarrow> raw_candle \<Rightarrow> string \<Rightarrow> string \<Rightarrow> error + candle" where
  "Candle L cd ins g =
     and_then (D L (mid_o cd)) (\<lambda>op.
     and_then (D L (mid_c cd)) (\<lambda>cl.
     and_then (D L (mid_l cd)) (\<lambda>lo.
     and_then (D L (mid_h cd)) (\<lambda>hi.
     and_then (dsub L cl op) (\<lambda>ocd.
     and_then (dsub L hi lo) (\<lambda>td.
     and_then (strptime L (slice_to (- 11) (json_time cd))) (\<lambda>t.
     and_then (py_int L (json_volume cd)) (\<lambda>v.
       Inr \<lparr> open' = op, close = cl, low = lo, high = hi,
             oc_displacement = ocd, total_displacement = td,
             complete' = (json_complete cd = JStr ''true''),
             time = t, volume = v, gran' = g, instrument' = ins,
             reversal = None, is_bull = None, is_bear = None \<rparr>))))))))"

text \<open>The first loop of \<open>CandleCluster.__init__\<close>: one \<open>append\<close> per payload entry.\<close>

fun append_candles ::
  "'s library \<Rightarrow> raw_candle list \<Rightarrow> string \<Rightarrow> string \<Rightarrow> candle list \<Rightarrow> error + candle list" where
  "append_candles L [] ins g acc = Inr acc"
| "append_candles L (cd # rest) ins g acc =
     and_then (Candle L cd ins g) (\<lambda>c. append_candles L rest ins g (acc @ [c]))"

text \<open>
  The body of the second loop for one index \<open>i > 0\<close>: the comparison of the closes sets
  \<open>is_bull\<close> and \<open>is_bear\<close> of candle \<open>i\<close>, then \<open>reversal\<close> is set from the
  comparison \<open>==\<close> of the two \<open>is_bull\<close> attributes, which may be \<open>None\<close>.
\<close>

definition derive_step :: "nat \<Rightarrow> candle list \<Rightarrow> error + candle list" where
  "derive_step i cs =
     and_then (dec_gt (close (cs ! i)) (close (cs ! (i - 1)))) (\<lambda>up.
       let cs1 = (if up then cs[i := (cs ! i)\<lparr>is_bull := Some True, is_bear := Some False\<rparr>]
                  else cs[i := (cs ! i)\<lparr>is_bull := Some False, is_bear := Some True\<rparr>]);
           cs2 = (if is_bull (cs1 ! i) = is_bull (cs1 ! (i - 1))
                  then cs1[i := (cs1 ! i)\<lparr>reversal := Some False\<rparr>]
                  else cs1[i := (cs1 ! i)\<lparr>reversal := Some True\<rparr>])
       in Inr cs2)"

text \<open>\<open>for i in range(len(self.candles))\<close>, with \<open>continue\<close> at \<open>i == 0\<close>.\<close>

fun derive_loop :: "nat list \<Rightarrow> candle list \<Rightarrow> error + candle list" where
  "derive_loop [] cs = Inr cs"
| "derive_loop (i # rest) cs =
     (if i = 0 then derive_loop rest cs
      else and_then (derive_step i cs) (\<lambda>cs'. derive_loop rest cs'))"

text \<open>\<open>CandleCluster.__init__\<close>, from the decoded payload.\<close>

definition CandleCluster :: "'s library \<Rightarrow> payload \<Rightarrow> error + 's cluster" where
  "CandleCluster L p =
     (let g = json_granularity p;
          ins = replace_char CHR ''/'' CHR ''_'' (json_instrument p)
      in and_then (append_candles L (json_candles p) ins g []) (\<lambda>cs.
         and_then (derive_loop [0 ..< length cs] cs) (\<lambda>cs'.
         and_then (standard_deviation L (map close (slice_from (- 30) cs'))) (\<lambda>sd.
           Inr \<lparr> candledata = p, candles = cs', ind = 0, gran = g, instrument = ins,
                 std = sd \<rparr>))))"

section \<open>Iteration and indexing\<close>

text \<open>
  A list iterator, as \<open>iter(xs)\<close> returns it: the list and a position of its own.
  \<open>next_list\<close> is \<open>next(it)\<close>; \<open>None\<close> stands for \<open>StopIteration\<close>.
\<close>

record 'a list_iterator =
  it_seq :: "'a list"
  it_pos :: nat

definition iter_list :: "'a list \<Rightarrow> 'a list_iterator" where
  "iter_list xs = \<lparr> it_seq = xs, it_pos = 0 \<rparr>"

definition next_list :: "'a list_iterator \<Rightarrow> ('a \<times> 'a list_iterator) option" where
  "next_list it =
     (if it_pos it < length (it_seq it)
      then Some (it_seq it ! it_pos it, it\<lparr>it_pos := it_pos it + 1\<rparr>)
      else None)"

text \<open>\<open>for x in it: body\<close>, the body acting on a state \<open>st\<close>.\<close>

function for_loop :: "'a list_iterator \<Rightarrow> ('a \<Rightarrow> 'b \<Rightarrow> 'b) \<Rightarrow> 'b \<Rightarrow> 'b" where
  "for_loop it body st =
     (case next_list it of
        None \<Rightarrow> st
      | Some (x, it') \<Rightarrow> for_loop it' body (body x st))"
  by pat_completeness auto
termination
  by (relation "measure (\<lambda>(it, body, st). length (it_seq it) - it_pos it)")
     (auto simp: next_list_def split: if_splits)

declare for_loop.simps [simp del]

text \<open>
  \<open>CandleCluster.__iter__\<close> returns a new iterator over the list of candles and leaves
  the cluster as it is. \<open>CandleCluster.__next__\<close> returns the cursor \<open>ind\<close> and
  advances it.
\<close>

definition cluster_iter :: "'s cluster \<Rightarrow> candle list_iterator" where
  "cluster_iter self = iter_list (candles self)"

definition cluster_next :: "'s cluster \<Rightarrow> int \<times> 's cluster" where
  "cluster_next self = (ind self, self\<lparr>ind := ind self + 1\<rparr>)"

text \<open>
  One traversal \<open>[c for c in self]\<close>: the candles it produces, in order, and the
  cluster after it.
\<close>

definition traverse :: "'s cluster \<Rightarrow> candle list \<times> 's cluster" where
  "traverse self = (for_loop (cluster_iter self) (\<lambda>c out. out @ [c]) [], self)"

text \<open>\<open>CandleCluster.__getitem__\<close> and \<open>CandleCluster.__len__\<close>.\<close>

definition getitem :: "'s cluster \<Rightarrow> int \<Rightarrow> error + candle" where
  "getitem self index = getitem_list (candles self) index"

definition len :: "'s cluster \<Rightarrow> nat" where
  "len self = length (candles self)"

section \<open>Concatenation\<close>

text \<open>
  \<open>deepcopy\<close> of a cluster is a cluster with equal fields. \<open>add_result\<close> is the value
  of the local variable \<open>result\<close> of \<open>CandleCluster.__add__\<close> when control reaches the
  last line (\<open>None\<close> when neither branch has bound it); \<open>add\<close> is the method, whose
  last line is a \<open>return\<close> without a value.
\<close>

definition deepcopy :: "'s cluster \<Rightarrow> 's cluster" where
  "deepcopy c = c"

definition append_candle :: "candle \<Rightarrow> 's cluster \<Rightarrow> 's cluster" where
  "append_candle c result = result\<lparr>candles := candles result @ [c]\<rparr>"

definition add_result :: "'s cluster \<Rightarrow> 's cluster \<Rightarrow> error + 's cluster option" where
  "add_result self b =
     (if \<not> instrument self = instrument b
      then Inl (ClusterConcatException (instrument self) (instrument b))
      else
        and_then (getitem self 0) (\<lambda>s0.
        and_then (getitem b (- 1)) (\<lambda>bl.
          if time s0 > time bl
          then Inr (Some (for_loop (cluster_iter self) append_candle (deepcopy b)))
          else
            and_then (getitem b 0) (\<lambda>b0.
            and_then (getitem self (- 1)) (\<lambda>sl.
              if time b0 > time sl
              then Inr (Some (for_loop (cluster_iter b) append_candle (deepcopy self)))
              else Inr None)))))"

definition add :: "'s cluster \<Rightarrow> 's cluster \<Rightarrow> error + 's cluster option" where
  "add self b = and_then (add_result self b) (\<lambda>result. Inr None)"

section \<open>History\<close>

text \<open>
  The values an attribute of a candle can have. \<open>VClassAttr n\<close> is the object found
  under the name \<open>n\<close> in the class rather than in the instance (a bound method, for
  instance).
\<close>

datatype pyval =
    VDecimal decimal
  | VBool bool
  | VInt int
  | VDatetime int
  | VStr string
  | VNone
  | VClassAttr string

definition of_flag :: "bool option \<Rightarrow> pyval" where
  "of_flag f = (case f of None \<Rightarrow> VNone | Some b \<Rightarrow> VBool b)"

text \<open>The attributes that \<open>Candle.__init__\<close> sets on the instance, under their names.\<close>

definition candle_dict :: "candle \<Rightarrow> (string \<times> pyval) list" where
  "candle_dict c =
     [(''open'', VDecimal (open' c)),
      (''close'', VDecimal (close c)),
      (''low'', VDecimal (low c)),
      (''high'', VDecimal (high c)),
      (''oc_displacement'', VDecimal (oc_displacement c)),
      (''total_displacement'', VDecimal (total_displacement c)),
      (''complete'', VBool (complete' c)),
      (''time'', VDatetime (time c)),
      (''volume'', VInt (volume c)),
      (''gran'', VStr (gran' c)),
      (''instrument'', VStr (instrument' c)),
      (''reversal'', of_flag (reversal c)),
      (''is_bull'', of_flag (is_bull c)),
      (''is_bear'', of_flag (is_bear c))]"

text \<open>
  \<open>getattr(candle, name)\<close>. The names that the class \<open>Candle\<close> and its base
  \<open>object\<close> define (\<open>__init__\<close>, \<open>__str__\<close>, \<open>__repr__\<close>, \<open>__class__\<close>, ...)
  depend on the interpreter; they are the parameter \<open>cls\<close>. A name that is not a
  string (here: \<open>None\<close>) is a \<open>TypeError\<close>.
\<close>

definition getattr :: "string list \<Rightarrow> candle \<Rightarrow> string option \<Rightarrow> error + pyval" where
  "getattr cls c name =
     (case name of
        None \<Rightarrow> Inl TypeError
      | Some n \<Rightarrow>
          (case map_of (candle_dict c) n of
             Some v \<Rightarrow> Inr v
           | None \<Rightarrow> if n \<in> set cls then Inr (VClassAttr n) else Inl (AttributeError n)))"

text \<open>Truth value of an argument that is \<open>None\<close> or a string.\<close>

definition truthy :: "string option \<Rightarrow> bool" where
  "truthy v = (case v of None \<Rightarrow> False | Some s \<Rightarrow> s \<noteq> [])"

text \<open>What \<open>history\<close> returns: a pair of lists, one list, or \<open>None\<close>.\<close>

datatype history_value =
    HPair "pyval list" "pyval list"
  | HList "pyval list"
  | HNone

text \<open>The loop of the first branch, on the two lists of \<open>historic_data\<close>.\<close>

fun history_loop ::
  "string list \<Rightarrow> candle list \<Rightarrow> string option \<Rightarrow> string option \<Rightarrow>
   pyval list \<times> pyval list \<Rightarrow> error + pyval list \<times> pyval list" where
  "history_loop cls [] valuex valuey hist = Inr hist"
| "history_loop cls (c # rest) valuex valuey hist =
     and_then (getattr cls c valuex) (\<lambda>x.
     and_then (getattr cls c valuey) (\<lambda>y.
       history_loop cls rest valuex valuey (fst hist @ [x], snd hist @ [y])))"

text \<open>The list comprehension of the second branch.\<close>

fun getattr_each :: "string list \<Rightarrow> candle list \<Rightarrow> string option \<Rightarrow> error + pyval list" where
  "getattr_each cls [] valuex = Inr []"
| "getattr_each cls (c # rest) valuex =
     and_then (getattr cls c valuex) (\<lambda>v.
     and_then (getattr_each cls rest valuex) (\<lambda>vs. Inr (v # vs)))"

definition history ::
  "string list \<Rightarrow> 's cluster \<Rightarrow> string option \<Rightarrow> string option \<Rightarrow> error + history_value" where
  "history cls self valuex valuey =
     (if truthy valuex \<and> truthy valuey
      then and_then (history_loop cls (candles self) valuex valuey ([], []))
             (\<lambda>hist. Inr (HPair (fst hist) (snd hist)))
      else if \<not> truthy valuey
      then and_then (getattr_each cls (candles self) valuex) (\<lambda>vs. Inr (HList vs))
      else Inr HNone)"

section \<open>Notions used in the statements\<close>

text \<open>The last \<open>n\<close> elements of a list (all of them when there are fewer).\<close>

definition last_n :: "nat \<Rightarrow> 'a list \<Rightarrow> 'a list" where
  "last_n n xs = rev (take n (rev xs))"

text \<open>A candle as \<open>Candle.__init__\<close> leaves it: the three derived attributes unset.\<close>

definition underived :: "candle \<Rightarrow> candle" where
  "underived c = c\<lparr>reversal := None, is_bull := None, is_bear := None\<rparr>"

text \<open>
  The names under which \<open>getattr\<close> finds something on a candle: the fourteen
  attributes of the instance, and the names \<open>cls\<close> of the class.
\<close>

definition candle_attributes :: "string list" where
  "candle_attributes =
     [''open'', ''close'', ''low'', ''high'', ''oc_displacement'', ''total_displacement'',
      ''complete'', ''time'', ''volume'', ''gran'', ''instrument'', ''reversal'',
      ''is_bull'', ''is_bear'']"

definition recognized :: "string list \<Rightarrow> string \<Rightarrow> bool" where
  "recognized cls n = (n \<in> set candle_attributes \<or> n \<in> set cls)"

text \<open>
  A payload is valid for a library when every entry of its \<open>candles\<close> array is accepted
  by \<open>Candle.__init__\<close>, when its closes can be compared (none is a NaN, as soon as
  there are two candles to compare), and when the standard deviation of its last closes
  is defined.
\<close>

definition succeeds :: "error + 'a \<Rightarrow> bool" where
  "succeeds r = (case r of Inl e \<Rightarrow> False | Inr v \<Rightarrow> True)"

definition close_of :: "'s library \<Rightarrow> raw_candle \<Rightarrow> decimal" where
  "close_of L cd = (case D L (mid_c cd) of Inl e \<Rightarrow> NaN | Inr d \<Rightarrow> d)"

definition valid_payload :: "'s library \<Rightarrow> payload \<Rightarrow> bool" where
  "valid_payload L p =
     (let raws = json_candles p;
          g = json_granularity p;
          ins = replace_char CHR ''/'' CHR ''_'' (json_instrument p)
      in list_all (\<lambda>cd. succeeds (Candle L cd ins g)) raws \<and>
         (2 \<le> length raws \<longrightarrow> list_all (\<lambda>cd. close_of L cd \<noteq> NaN) raws) \<and>
         succeeds (standard_deviation L (map (close_of L) (slice_from (- 30) raws))))"

text \<open>
  What one pass of the body of the second loop writes on a candle: \<open>up\<close> is the
  outcome of the comparison of the closes, \<open>prev\<close> the \<open>is_bull\<close> of the candle
  before.
\<close>

definition mark :: "bool \<Rightarrow> bool option \<Rightarrow> candle \<Rightarrow> candle" where
  "mark up prev c =
     c\<lparr>is_bull := Some up, is_bear := Some (\<not> up), reversal := Some (Some up \<noteq> prev)\<rparr>"

section \<open>Sample data\<close>

text \<open>
  A library on which the model can be run: it has the values of the Python functions
  on the strings of the sample payloads and rejects every other string. The differences
  of the sample prices have fewer than six digits, so that \<open>dsub\<close> is exact on them.
  The standard deviation of a non-empty list is kept as a term \<open>StdDev xs\<close>, so that
  a cluster shows the values its deviation was computed from.
\<close>

datatype stat = StdDev "decimal list"

definition sample_D :: "string \<Rightarrow> error + decimal" where
  "sample_D s =
     (case map_of [(''1.0'', Finite 1), (''1.1'', Finite (11 / 10)), (''1.2'', Finite (6 / 5)),
                   (''1.3'', Finite (13 / 10)), (''NaN'', NaN)] s of
        Some d \<Rightarrow> Inr d
      | None \<Rightarrow> Inl (LibraryError ''InvalidOperation''))"

fun sample_dsub :: "decimal \<Rightarrow> decimal \<Rightarrow> error + decimal" where
  "sample_dsub (Finite a) (Finite b) = Inr (Finite (a - b))"
| "sample_dsub _ _ = Inr NaN"

text \<open>The time is counted in seconds from the first instant of 2020.\<close>

definition sample_strptime :: "string \<Rightarrow> error + int" where
  "sample_strptime s =
     (case map_of [(''2020-01-01T00:00:01'', 1), (''2020-01-01T00:00:02'', 2),
                   (''2020-01-01T00:00:03'', 3), (''2020-01-01T00:00:04'', 4),
                   (''2020-01-01T00:00:05'', 5), (''2020-01-01T00:00:06'', 6)] s of
        Some t \<Rightarrow> Inr t
      | None \<Rightarrow> Inl (LibraryError ''ValueError''))"

fun sample_int :: "jval \<Rightarrow> error + int" where
  "sample_int (JInt n) = Inr n"
| "sample_int (JBool b) = Inr (if b then 1 else 0)"
| "sample_int (JStr s) = Inl (LibraryError ''ValueError'')"
| "sample_int JNull = Inl TypeError"

definition sample_sd :: "decimal list \<Rightarrow> error + stat" where
  "sample_sd xs = (if xs = [] then Inl (LibraryError ''EmptyInputError'') else Inr (StdDev xs))"

definition sample_library :: "stat library" where
  "sample_library =
     \<lparr> D = sample_D, dsub = sample_dsub, strptime = sample_strptime, py_int = sample_int,
       standard_deviation = sample_sd \<rparr>"

definition sample_raw :: "string \<Rightarrow> string \<Rightarrow> string \<Rightarrow> raw_candle" where
  "sample_raw op cl t =
     \<lparr> mid_o = op, mid_c = cl, mid_l = ''1.0'', mid_h = ''1.3'',
       json_complete = JBool True, json_time = t, json_volume = JInt 10 \<rparr>"

text \<open>Three candles at the seconds 1, 2 and 3, with the closes 1.0, 1.0 and 1.1.\<close>

definition payload_A :: payload where
  "payload_A =
     \<lparr> json_granularity = ''S1'', json_instrument = ''EUR/USD'',
       json_candles =
         [sample_raw ''1.0'' ''1.0'' ''2020-01-01T00:00:01.000000000Z'',
          sample_raw ''1.0'' ''1.0'' ''2020-01-01T00:00:02.000000000Z'',
          sample_raw ''1.0'' ''1.1'' ''2020-01-01T00:00:03.000000000Z''] \<rparr>"

text \<open>Three candles at the seconds 4, 5 and 6, for the same instrument.\<close>

definition payload_B :: payload where
  "payload_B =
     \<lparr> json_granularity = ''S1'', json_instrument = ''EUR/USD'',
       json_candles =
         [sample_raw ''1.1'' ''1.2'' ''2020-01-01T00:00:04.000000000Z'',
          sample_raw ''1.2'' ''1.1'' ''2020-01-01T00:00:05.000000000Z'',
          sample_raw ''1.1'' ''1.3'' ''2020-01-01T00:00:06.000000000Z''] \<rparr>"

text \<open>One candle of another instrument.\<close>

definition payload_C :: payload where
  "payload_C =
     \<lparr> json_granularity = ''S1'', json_instrument = ''USD/CAD'',
       json_candles = [sample_raw ''1.3'' ''1.2'' ''2020-01-01T00:00:01.000000000Z''] \<rparr>"

text \<open>The candles that the two loops of the constructor make of the sample payloads.\<close>

definition sample_candle ::
  "string \<Rightarrow> rat \<Rightarrow> rat \<Rightarrow> int \<Rightarrow> bool option \<Rightarrow> bool option \<Rightarrow> candle" where
  "sample_candle ins op cl t bull rv =
     \<lparr> open' = Finite op, close = Finite cl, low = Finite 1, high = Finite (13 / 10),
       oc_displacement = Finite (cl - op), total_displacement = Finite (3 / 10),
       complete' = False, time = t, volume = 10, gran' = ''S1'', instrument' = ins,
       reversal = rv, is_bull = bull, is_bear = map_option Not bull \<rparr>"

definition cluster_A :: "stat cluster" where
  "cluster_A =
     \<lparr> candledata = payload_A,
       candles =
         [sample_candle ''EUR_USD'' 1 1 1 None None,
          sample_candle ''EUR_USD'' 1 1 2 (Some False) (Some True),
          sample_candle ''EUR_USD'' 1 (11 / 10) 3 (Some True) (Some True)],
       ind = 0, gran = ''S1'', instrument = ''EUR_USD'',
       std = StdDev [Finite 1, Finite 1, Finite (11 / 10)] \<rparr>"

definition cluster_B :: "stat cluster" where
  "cluster_B =
     \<lparr> candledata = payload_B,
       candles =
         [sample_candle ''EUR_USD'' (11 / 10) (6 / 5) 4 None None,
          sample_candle ''EUR_USD'' (6 / 5) (11 / 10) 5 (Some False) (Some True),
          sample_candle ''EUR_USD'' (11 / 10) (13 / 10) 6 (Some True) (Some True)],
       ind = 0, gran = ''S1'', instrument = ''EUR_USD'',
       std = StdDev [Finite (6 / 5), Finite (11 / 10), Finite (13 / 10)] \<rparr>"

definition cluster_C :: "stat cluster" where
  "cluster_C =
     \<lparr> candledata = payload_C,
       candles = [sample_candle ''USD_CAD'' (13 / 10) (6 / 5) 1 None None],
       ind = 0, gran = ''S1'', instrument = ''USD_CAD'',
       std = StdDev [Finite (6 / 5)] \<rparr>"

section \<open>Basic facts\<close>

lemma and_then_Inr_iff:
  "and_then r f = Inr v \<longleftrightarrow> (\<exists>x. r = Inr x \<and> f x = Inr v)"
  by (cases r) (simp_all add: and_then_def)

lemma dec_gt_Inr_iff: "(\<exists>up. dec_gt a b = Inr up) \<longleftrightarrow> a \<noteq> NaN \<and> b \<noteq> NaN"
  by (cases a; cases b) auto

lemma dec_gt_same: "a \<noteq> NaN \<Longrightarrow> dec_gt a a = Inr False"
  by (cases a) simp_all

subsection \<open>The sample clusters are what the constructor returns\<close>

lemmas sample_defs =
  CandleCluster_def sample_raw_def sample_candle_def Candle_def sample_library_def
  sample_D_def sample_strptime_def sample_sd_def and_then_def derive_step_def
  replace_char_def slice_to_def slice_from_def clip_index_def upt_conv_Cons Let_def

lemma construct_A: "CandleCluster sample_library payload_A = Inr cluster_A"
  by (simp add: payload_A_def cluster_A_def sample_defs)

lemma construct_B: "CandleCluster sample_library payload_B = Inr cluster_B"
  by (simp add: payload_B_def cluster_B_def sample_defs)

lemma construct_C: "CandleCluster sample_library payload_C = Inr cluster_C"
  by (simp add: payload_C_def cluster_C_def sample_defs)

section \<open>The constructor\<close>

subsection \<open>The first loop\<close>

lemma Candle_Inr:
  assumes "Candle L cd ins g = Inr c"
  shows "is_bull c = None" "is_bear c = None" "reversal c = None" "underived c = c"
    "D L (mid_c cd) = Inr (close c)" "close_of L cd = close c"
  using assms
  by (auto simp: Candle_def and_then_Inr_iff underived_def close_of_def)

lemma append_candles_Inr:
  assumes "append_candles L raws ins g acc = Inr r"
  shows "\<exists>cs. r = acc @ cs \<and> list_all2 (\<lambda>cd c. Candle L cd ins g = Inr c) raws cs"
  using assms
proof (induction raws arbitrary: acc)
  case Nil
  then show ?case by simp
next
  case (Cons cd rest)
  then obtain c where c: "Candle L cd ins g = Inr c"
    and r: "append_candles L rest ins g (acc @ [c]) = Inr r"
    by (auto simp: and_then_Inr_iff)
  from Cons.IH [OF r] obtain cs where
    "r = (acc @ [c]) @ cs" "list_all2 (\<lambda>cd c. Candle L cd ins g = Inr c) rest cs"
    by blast
  with c have "r = acc @ (c # cs) \<and> list_all2 (\<lambda>cd c. Candle L cd ins g = Inr c) (cd # rest) (c # cs)"
    by simp
  then show ?case by blast
qed

lemma append_candles_succeeds:
  assumes "list_all (\<lambda>cd. succeeds (Candle L cd ins g)) raws"
  shows "\<exists>r. append_candles L raws ins g acc = Inr r"
  using assms
proof (induction raws arbitrary: acc)
  case Nil
  then show ?case by simp
next
  case (Cons cd rest)
  then obtain c where "Candle L cd ins g = Inr c"
    by (cases "Candle L cd ins g") (simp_all add: succeeds_def)
  with Cons show ?case by (simp add: and_then_def)
qed

subsection \<open>The second loop\<close>

lemma mark_fields [simp]:
  "is_bull (mark up prev c) = Some up"
  "is_bear (mark up prev c) = Some (\<not> up)"
  "reversal (mark up prev c) = Some (Some up \<noteq> prev)"
  "close (mark up prev c) = close c"
  "underived (mark up prev c) = underived c"
  by (simp_all add: mark_def underived_def)

lemma derive_step_eq:
  assumes "dec_gt (close (cs ! i)) (close (cs ! (i - 1))) = Inr up" "0 < i" "i < length cs"
  shows "derive_step i cs = Inr (cs[i := mark up (is_bull (cs ! (i - 1))) (cs ! i)])"
  using assms by (auto simp: derive_step_def and_then_def Let_def mark_def)

lemma derive_step_Inl:
  assumes "dec_gt (close (cs ! i)) (close (cs ! (i - 1))) = Inl e"
  shows "derive_step i cs = Inl e"
  using assms by (simp add: derive_step_def and_then_def)

lemma derive_step_cases:
  assumes "derive_step i cs = Inr cs2" "0 < i" "i < length cs"
  obtains up where "dec_gt (close (cs ! i)) (close (cs ! (i - 1))) = Inr up"
    and "cs2 = cs[i := mark up (is_bull (cs ! (i - 1))) (cs ! i)]"
proof (cases "dec_gt (close (cs ! i)) (close (cs ! (i - 1)))")
  case (Inl e)
  with assms(1) show ?thesis by (simp add: derive_step_Inl)
next
  case (Inr up)
  with assms that show ?thesis by (simp add: derive_step_eq)
qed

text \<open>
  The loop from index \<open>k\<close> on: the candles below \<open>k\<close> and the first one are left as
  they are, every other candle is marked from the comparison of its close with the
  close before it and from the \<open>is_bull\<close> that the candle before it has by then.
\<close>

lemma derive_loop_upt:
  assumes "derive_loop [k ..< length cs] cs = Inr cs'"
  shows "length cs' = length cs \<and>
         (\<forall>j < length cs. underived (cs' ! j) = underived (cs ! j)) \<and>
         (\<forall>j < length cs. j < k \<or> j = 0 \<longrightarrow> cs' ! j = cs ! j) \<and>
         (\<forall>j < length cs. k \<le> j \<and> 0 < j \<longrightarrow>
            (\<exists>up. dec_gt (close (cs ! j)) (close (cs ! (j - 1))) = Inr up \<and>
                  cs' ! j = mark up (is_bull (cs' ! (j - 1))) (cs ! j)))"
  using assms
proof (induction "length cs - k" arbitrary: k cs)
  case 0
  then have "[k ..< length cs] = []" by simp
  with "0.prems" have "cs' = cs" by simp
  with 0 show ?case by simp
next
  case (Suc m)
  then have k: "k < length cs" by simp
  then have upt: "[k ..< length cs] = k # [Suc k ..< length cs]"
    by (simp add: upt_conv_Cons)
  show ?case
  proof (cases "k = 0")
    case True
    with Suc.prems upt have run: "derive_loop [Suc 0 ..< length cs] cs = Inr cs'"
      by simp
    from Suc.hyps(2) True have "m = length cs - Suc 0" by simp
    from Suc.hyps(1) [OF this run] True show ?thesis
      by (auto simp: Suc_le_eq)
  next
    case False
    then have pos: "0 < k" by simp
    from Suc.prems upt False obtain cs2 where
      step: "derive_step k cs = Inr cs2" and run: "derive_loop [Suc k ..< length cs] cs2 = Inr cs'"
      by (auto simp: and_then_Inr_iff)
    from step pos k obtain up where
      up: "dec_gt (close (cs ! k)) (close (cs ! (k - 1))) = Inr up" and
      cs2: "cs2 = cs[k := mark up (is_bull (cs ! (k - 1))) (cs ! k)]"
      by (rule derive_step_cases)
    have len2: "length cs2 = length cs" by (simp add: cs2)
    have nth2: "cs2 ! j = (if j = k then mark up (is_bull (cs ! (k - 1))) (cs ! k) else cs ! j)"
      if "j < length cs" for j
      using that k by (simp add: cs2 nth_list_update)
    have und2: "underived (cs2 ! j) = underived (cs ! j)" if "j < length cs" for j
      using that by (simp add: nth2)
    have close2: "close (cs2 ! j) = close (cs ! j)" if "j < length cs" for j
      using that by (simp add: nth2)
    from Suc.hyps(2) have "m = length cs2 - Suc k" by (simp add: len2)
    from Suc.hyps(1) [OF this] run len2
    have IH: "length cs' = length cs"
      "\<And>j. j < length cs \<Longrightarrow> underived (cs' ! j) = underived (cs2 ! j)"
      "\<And>j. j < length cs \<Longrightarrow> j < Suc k \<or> j = 0 \<Longrightarrow> cs' ! j = cs2 ! j"
      "\<And>j. j < length cs \<Longrightarrow> Suc k \<le> j \<Longrightarrow>
         \<exists>up. dec_gt (close (cs2 ! j)) (close (cs2 ! (j - 1))) = Inr up \<and>
              cs' ! j = mark up (is_bull (cs' ! (j - 1))) (cs2 ! j)"
      by auto
    have A: "underived (cs' ! j) = underived (cs ! j)" if "j < length cs" for j
      using that IH(2) und2 by simp
    have B: "cs' ! j = cs ! j" if "j < length cs" "j < k \<or> j = 0" for j
    proof -
      from that pos have "j \<noteq> k" by auto
      with that IH(3) [of j] nth2 [of j] show ?thesis by auto
    qed
    have C: "\<exists>up. dec_gt (close (cs ! j)) (close (cs ! (j - 1))) = Inr up \<and>
                  cs' ! j = mark up (is_bull (cs' ! (j - 1))) (cs ! j)"
      if "j < length cs" "k \<le> j" for j
    proof (cases "j = k")
      case True
      have "cs' ! k = cs2 ! k" using IH(3) [of k] k by simp
      moreover have "cs' ! (k - 1) = cs ! (k - 1)"
        using B [of "k - 1"] k pos by simp
      ultimately show ?thesis
        using up True k by (simp add: nth2)
    next
      case False
      with that have gt: "Suc k \<le> j" by simp
      from IH(4) [OF that(1) gt] obtain u where
        u: "dec_gt (close (cs2 ! j)) (close (cs2 ! (j - 1))) = Inr u"
           "cs' ! j = mark u (is_bull (cs' ! (j - 1))) (cs2 ! j)"
        by blast
      have "j - 1 < length cs" using that by simp
      with u that False show ?thesis
        by (simp add: close2) (simp add: nth2)
    qed
    from IH(1) A B C show ?thesis by blast
  qed
qed

subsection \<open>What a successful construction has done\<close>

lemma CandleCluster_Inr:
  assumes "CandleCluster L p = Inr cl"
  obtains cs where
    "append_candles L (json_candles p) (instrument cl) (gran cl) [] = Inr cs"
    "derive_loop [0 ..< length cs] cs = Inr (candles cl)"
    "standard_deviation L (map close (slice_from (- 30) (candles cl))) = Inr (std cl)"
    "instrument cl = replace_char CHR ''/'' CHR ''_'' (json_instrument p)"
    "gran cl = json_granularity p"
  using assms
  by (auto simp: CandleCluster_def Let_def and_then_Inr_iff)

lemma constructed:
  assumes "CandleCluster L p = Inr cl"
  obtains cs where
    "list_all2 (\<lambda>cd c. Candle L cd (instrument cl) (gran cl) = Inr c) (json_candles p) cs"
    "length (candles cl) = length cs"
    "\<forall>j < length cs. underived (candles cl ! j) = cs ! j"
    "\<forall>j < length cs. close (candles cl ! j) = close (cs ! j)"
    "cs \<noteq> [] \<longrightarrow> candles cl ! 0 = cs ! 0"
    "\<forall>j < length cs. 0 < j \<longrightarrow>
       (\<exists>up. dec_gt (close (cs ! j)) (close (cs ! (j - 1))) = Inr up \<and>
            candles cl ! j = mark up (is_bull (candles cl ! (j - 1))) (cs ! j))"
proof -
  from assms obtain cs where
    app: "append_candles L (json_candles p) (instrument cl) (gran cl) [] = Inr cs" and
    loop: "derive_loop [0 ..< length cs] cs = Inr (candles cl)"
    by (rule CandleCluster_Inr)
  from append_candles_Inr [OF app]
  have all2: "list_all2 (\<lambda>cd c. Candle L cd (instrument cl) (gran cl) = Inr c) (json_candles p) cs"
    by simp
  have own: "underived (cs ! j) = cs ! j" if "j < length cs" for j
  proof -
    from all2 that have "Candle L (json_candles p ! j) (instrument cl) (gran cl) = Inr (cs ! j)"
      by (simp add: list_all2_conv_all_nth)
    then show ?thesis by (rule Candle_Inr(4))
  qed
  note inv = derive_loop_upt [OF loop]
  have und: "underived (candles cl ! j) = cs ! j" if "j < length cs" for j
    using inv that own by simp
  have cl: "close (candles cl ! j) = close (cs ! j)" if "j < length cs" for j
  proof -
    have "close (underived (candles cl ! j)) = close (cs ! j)"
      using und [OF that] by simp
    then show ?thesis by (simp add: underived_def)
  qed
  show thesis
  proof (rule that [of cs])
    show "list_all2 (\<lambda>cd c. Candle L cd (instrument cl) (gran cl) = Inr c) (json_candles p) cs"
      by (rule all2)
    show "length (candles cl) = length cs" using inv by simp
    show "\<forall>j < length cs. underived (candles cl ! j) = cs ! j"
      using und by simp
    show "\<forall>j < length cs. close (candles cl ! j) = close (cs ! j)"
      using cl by simp
    show "cs \<noteq> [] \<longrightarrow> candles cl ! 0 = cs ! 0"
      using inv by simp
    show "\<forall>j < length cs. 0 < j \<longrightarrow>
       (\<exists>up. dec_gt (close (cs ! j)) (close (cs ! (j - 1))) = Inr up \<and>
            candles cl ! j = mark up (is_bull (candles cl ! (j - 1))) (cs ! j))"
      using inv by simp
  qed
qed

subsection \<open>The derived attributes\<close>

lemma first_as_parsed:
  assumes "CandleCluster L p = Inr cl" and "candles cl \<noteq> []"
  shows "is_bull (candles cl ! 0) = None \<and> is_bear (candles cl ! 0) = None \<and>
         reversal (candles cl ! 0) = None"
proof -
  from assms(1) obtain cs where
    all2: "list_all2 (\<lambda>cd c. Candle L cd (instrument cl) (gran cl) = Inr c) (json_candles p) cs" and
    len: "length (candles cl) = length cs" and
    first: "cs \<noteq> [] \<longrightarrow> candles cl ! 0 = cs ! 0"
    by (rule constructed)
  from assms(2) len have ne: "cs \<noteq> []" by auto
  with all2 have "Candle L (json_candles p ! 0) (instrument cl) (gran cl) = Inr (cs ! 0)"
    by (simp add: list_all2_conv_all_nth)
  from Candle_Inr(1-3) [OF this] first ne show ?thesis by simp
qed

text \<open>
  Claim C6. In every cluster that the constructor returns, the first candle (index 0) has
  \<open>is_bull\<close>, \<open>is_bear\<close> and \<open>reversal\<close> unset (\<open>None\<close>): the second loop
  skips it.
\<close>

theorem first_candle_unset:
  assumes "CandleCluster L p = Inr cl" and "candles cl \<noteq> []"
  shows "is_bull (candles cl ! 0) = None \<and> is_bear (candles cl ! 0) = None \<and>
         reversal (candles cl ! 0) = None"
  using assms by (rule first_as_parsed)

theorem first_candle_unset_witness:
  "CandleCluster sample_library payload_A = Inr cluster_A \<and> candles cluster_A \<noteq> [] \<and>
   is_bull (candles cluster_A ! 0) = None \<and> is_bear (candles cluster_A ! 0) = None \<and>
   reversal (candles cluster_A ! 0) = None"
proof -
  have ne: "candles cluster_A \<noteq> []" by (simp add: cluster_A_def)
  from first_candle_unset [OF construct_A ne] construct_A ne show ?thesis by simp
qed

text \<open>
  Claim C9. In every cluster with at least two candles, \<open>reversal\<close> of the second
  candle (index 1) is \<open>True\<close>, whatever the closes are: \<open>is_bull\<close> of the first
  candle is \<open>None\<close>, which is equal to neither \<open>True\<close> nor \<open>False\<close>.
\<close>

theorem second_candle_reversal:
  assumes "CandleCluster L p = Inr cl" and "2 \<le> length (candles cl)"
  shows "reversal (candles cl ! 1) = Some True"
proof -
  have ne: "candles cl \<noteq> []" using assms(2) by auto
  from assms(1) obtain cs where
    len: "length (candles cl) = length cs" and
    step: "\<forall>j < length cs. 0 < j \<longrightarrow>
       (\<exists>up. dec_gt (close (cs ! j)) (close (cs ! (j - 1))) = Inr up \<and>
            candles cl ! j = mark up (is_bull (candles cl ! (j - 1))) (cs ! j))"
    by (rule constructed)
  have one: "1 < length cs" using len assms(2) by simp
  from step [rule_format, OF one zero_less_one] obtain up where
    "candles cl ! 1 = mark up (is_bull (candles cl ! (1 - 1))) (cs ! 1)"
    by blast
  then have "candles cl ! 1 = mark up (is_bull (candles cl ! 0)) (cs ! 1)"
    by simp
  moreover have "is_bull (candles cl ! 0) = None"
    using first_as_parsed [OF assms(1) ne] by simp
  ultimately show ?thesis by simp
qed

theorem second_candle_reversal_witness:
  "CandleCluster sample_library payload_A = Inr cluster_A \<and>
   2 \<le> length (candles cluster_A) \<and> reversal (candles cluster_A ! 1) = Some True"
proof -
  have two: "2 \<le> length (candles cluster_A)" by (simp add: cluster_A_def)
  from second_candle_reversal [OF construct_A two] construct_A two show ?thesis by simp
qed

text \<open>
  Claim C2. In every cluster and at every index \<open>i > 0\<close>: the closes of the candles
  \<open>i\<close> and \<open>i - 1\<close> can be compared and \<open>is_bull\<close> of candle \<open>i\<close> is \<open>True\<close>
  exactly when the close of \<open>i\<close> is greater than the close of \<open>i - 1\<close>;
  \<open>is_bull\<close> is set, and \<open>is_bear\<close> is its negation; \<open>reversal\<close> is \<open>True\<close>
  exactly when \<open>is_bull\<close> of candle \<open>i\<close> differs from \<open>is_bull\<close> of candle
  \<open>i - 1\<close>; and two equal closes make candle \<open>i\<close> a bear.
\<close>

theorem derivation_pass:
  assumes "CandleCluster L p = Inr cl" and "0 < i" and "i < length (candles cl)"
  shows "dec_gt (close (candles cl ! i)) (close (candles cl ! (i - 1)))
           = Inr (is_bull (candles cl ! i) = Some True) \<and>
         is_bull (candles cl ! i) \<noteq> None \<and>
         is_bear (candles cl ! i) = map_option Not (is_bull (candles cl ! i)) \<and>
         reversal (candles cl ! i)
           = Some (is_bull (candles cl ! i) \<noteq> is_bull (candles cl ! (i - 1))) \<and>
         (close (candles cl ! i) = close (candles cl ! (i - 1)) \<longrightarrow>
            is_bull (candles cl ! i) = Some False \<and> is_bear (candles cl ! i) = Some True)"
proof -
  from assms(1) obtain cs where
    len: "length (candles cl) = length cs" and
    cl: "\<forall>j < length cs. close (candles cl ! j) = close (cs ! j)" and
    step: "\<forall>j < length cs. 0 < j \<longrightarrow>
       (\<exists>up. dec_gt (close (cs ! j)) (close (cs ! (j - 1))) = Inr up \<and>
            candles cl ! j = mark up (is_bull (candles cl ! (j - 1))) (cs ! j))"
    by (rule constructed)
  from assms(3) len have i: "i < length cs" "i - 1 < length cs" by simp_all
  from step [rule_format, OF i(1) assms(2)] obtain up where
    up: "dec_gt (close (cs ! i)) (close (cs ! (i - 1))) = Inr up" and
    ci: "candles cl ! i = mark up (is_bull (candles cl ! (i - 1))) (cs ! i)"
    by blast
  have cmp: "dec_gt (close (candles cl ! i)) (close (candles cl ! (i - 1))) = Inr up"
    using up cl i by simp
  have tie: "\<not> up" if "close (candles cl ! i) = close (candles cl ! (i - 1))"
  proof -
    from cmp that have same: "dec_gt (close (candles cl ! i)) (close (candles cl ! i)) = Inr up"
      by simp
    then have "close (candles cl ! i) \<noteq> NaN" by (auto simp: dec_gt_Inr_iff [symmetric])
    from dec_gt_same [OF this] same show ?thesis by simp
  qed
  from cmp tie show ?thesis by (simp add: ci)
qed

theorem derivation_pass_witness:
  "CandleCluster sample_library payload_A = Inr cluster_A \<and>
   (0::nat) < 1 \<and> 1 < length (candles cluster_A) \<and>
   close (candles cluster_A ! 1) = close (candles cluster_A ! (1 - 1)) \<and>
   dec_gt (close (candles cluster_A ! 1)) (close (candles cluster_A ! (1 - 1))) = Inr False \<and>
   is_bull (candles cluster_A ! 1) = Some False \<and>
   is_bear (candles cluster_A ! 1) = Some True \<and>
   reversal (candles cluster_A ! 1) = Some True"
proof -
  have len: "1 < length (candles cluster_A)" by (simp add: cluster_A_def)
  have tie: "close (candles cluster_A ! 1) = close (candles cluster_A ! (1 - 1))"
    by (simp add: cluster_A_def sample_candle_def)
  have prev: "is_bull (candles cluster_A ! (1 - 1)) = None"
    by (simp add: cluster_A_def sample_candle_def)
  from derivation_pass [OF construct_A zero_less_one len] tie prev construct_A len
  show ?thesis by auto
qed

subsection \<open>The standard deviation\<close>

lemma last_n_drop: "last_n n xs = drop (length xs - n) xs"
  by (simp add: last_n_def rev_take)

lemma slice_from_last_30: "slice_from (- 30) xs = last_n (min 30 (length xs)) xs"
proof -
  have "nat (max (int (length xs) - 30) 0) = length xs - min 30 (length xs)"
    by linarith
  then show ?thesis
    by (simp add: slice_from_def clip_index_def last_n_drop Let_def)
qed

lemma slice_from_map: "slice_from k (map f xs) = map f (slice_from k xs)"
  by (simp add: slice_from_def clip_index_def drop_map)

text \<open>
  Claim C7. The attribute \<open>std\<close> of a cluster of \<open>N\<close> candles is the value of
  \<open>standard_deviation\<close> on the closes of its last \<open>min(30, N)\<close> candles; these are
  all its candles when \<open>N < 30\<close>.
\<close>

theorem std_of_last_30:
  assumes "CandleCluster L p = Inr cl"
  shows "standard_deviation L
           (map close (last_n (min 30 (length (candles cl))) (candles cl))) = Inr (std cl) \<and>
         (length (candles cl) < 30 \<longrightarrow>
            standard_deviation L (map close (candles cl)) = Inr (std cl))"
proof -
  from assms obtain cs where
    sd: "standard_deviation L (map close (slice_from (- 30) (candles cl))) = Inr (std cl)"
    by (rule CandleCluster_Inr)
  then have *: "standard_deviation L
           (map close (last_n (min 30 (length (candles cl))) (candles cl))) = Inr (std cl)"
    by (simp add: slice_from_last_30)
  moreover have "last_n (min 30 (length (candles cl))) (candles cl) = candles cl"
    if "length (candles cl) < 30"
    using that by (simp add: last_n_drop)
  ultimately show ?thesis by auto
qed

theorem std_of_last_30_witness:
  "CandleCluster sample_library payload_A = Inr cluster_A \<and>
   length (candles cluster_A) < 30 \<and>
   standard_deviation sample_library (map close (candles cluster_A)) = Inr (std cluster_A) \<and>
   std cluster_A = StdDev [Finite 1, Finite 1, Finite (11 / 10)]"
proof -
  have len: "length (candles cluster_A) < 30" by (simp add: cluster_A_def)
  have "std cluster_A = StdDev [Finite 1, Finite 1, Finite (11 / 10)]"
    by (simp add: cluster_A_def)
  with std_of_last_30 [OF construct_A] construct_A len show ?thesis by simp
qed

section \<open>Traversal\<close>

text \<open>A \<open>for\<close> loop over a list iterator visits the elements from its position on.\<close>

lemma for_loop_from:
  "for_loop \<lparr>it_seq = xs, it_pos = k\<rparr> body st = fold body (drop k xs) st"
proof (induction "length xs - k" arbitrary: k st)
  case 0
  then show ?case
    by (subst for_loop.simps) (simp add: next_list_def)
next
  case (Suc m)
  then have k: "k < length xs" and m: "m = length xs - Suc k"
    by simp_all
  have "for_loop \<lparr>it_seq = xs, it_pos = k\<rparr> body st
        = for_loop \<lparr>it_seq = xs, it_pos = Suc k\<rparr> body (body (xs ! k) st)"
    using k by (subst for_loop.simps) (simp add: next_list_def)
  also have "\<dots> = fold body (drop (Suc k) xs) (body (xs ! k) st)"
    using Suc.hyps(1) [OF m] .
  also have "\<dots> = fold body (drop k xs) st"
    using k by (simp add: Cons_nth_drop_Suc [symmetric])
  finally show ?case .
qed

lemma for_loop_iter_list: "for_loop (iter_list xs) body st = fold body xs st"
  using for_loop_from [of xs 0 body st] by (simp add: iter_list_def)

lemma fold_snoc: "fold (\<lambda>c out. out @ [c]) xs acc = acc @ xs"
  by (induction xs arbitrary: acc) simp_all

lemma traverse_eq: "traverse self = (candles self, self)"
  by (simp add: traverse_def cluster_iter_def for_loop_iter_list fold_snoc)

text \<open>
  Claim C8. A traversal of a cluster produces its candles, each once and in order; a
  second traversal after the first produces them again, and so does a traversal after a
  call of \<open>__next__\<close>, which moves the cursor \<open>ind\<close>: the iterator that
  \<open>__iter__\<close> returns has a position of its own.
\<close>

theorem traverse_twice:
  "fst (traverse self) = candles self \<and>
   fst (traverse (snd (traverse self))) = candles self \<and>
   fst (traverse (snd (cluster_next self))) = candles self"
  by (simp add: traverse_eq cluster_next_def)

section \<open>Concatenation\<close>

text \<open>
  Claim C3. Concatenating two clusters whose instruments differ raises
  \<open>ClusterConcatException\<close>, constructed from the two instrument strings, whatever
  the candles of the two clusters are.
\<close>

theorem add_instrument_mismatch:
  "instrument a \<noteq> instrument b \<Longrightarrow>
   add a b = Inl (ClusterConcatException (instrument a) (instrument b))"
  by (simp add: add_def add_result_def and_then_def)

theorem add_instrument_mismatch_witness:
  "instrument cluster_A \<noteq> instrument cluster_C \<and>
   add cluster_A cluster_C = Inl (ClusterConcatException ''EUR_USD'' ''USD_CAD'')"
  using add_instrument_mismatch [of cluster_A cluster_C]
  by (simp add: cluster_A_def cluster_C_def)

section \<open>History\<close>

text \<open>
  Claim C10. When \<open>history\<close> is called with the second field only (\<open>valuex\<close> left at
  \<open>None\<close>, \<open>valuey\<close> the name of a recognized attribute), it returns \<open>None\<close>:
  neither a list of values nor an error, for every cluster.
\<close>

theorem history_only_valuey:
  "recognized cls vy \<Longrightarrow> vy \<noteq> [] \<Longrightarrow> history cls self None (Some vy) = Inr HNone"
  by (simp add: history_def truthy_def)

theorem history_only_valuey_witness:
  "recognized [''__str__'', ''__repr__''] ''close'' \<and> ''close'' \<noteq> [] \<and>
   history [''__str__'', ''__repr__''] cluster_A None (Some ''close'') = Inr HNone"
  using history_only_valuey [of "[''__str__'', ''__repr__'']" "''close''" cluster_A]
  by (simp add: recognized_def candle_attributes_def)

end
